theory Spec2Isabelle
  imports Complex_Main "HOL-Library.Multiset"
begin

section \<open>Values read from JSON\<close>

text \<open>
  The configuration files and the save payload are JSON. A value that \<open>JSON.parse\<close>
  returns is one of the following; an object is an association list in which the first
  binding of a key is the property's value. JavaScript numbers are modelled as exact
  reals: rounding, \<open>NaN\<close> and the infinities of IEEE doubles are outside this model.
\<close>

datatype json =
    JNull
  | JBool bool
  | JNum real
  | JStr string
  | JArr "json list"
  | JObj "(string \<times> json) list"

section \<open>Configuration (types/config.ts)\<close>

record drainTier =
  fromSec :: real
  rate :: real

record economyConfig =
  startCoins :: real
  coinDrainTiers :: "drainTier list"
  pickupValue :: real
  collisionPenalty :: real
  bribeShotCost :: real
  freeBribeChance :: real
  firstGateDelaySec :: "real option"
  gateIntervalSec :: real
  gateDurationSec :: real

text \<open>
  A \<open>GateEffect\<close> has four optional entries. The type promises numbers, the data is
  JSON, and \<open>effectMultiplier\<close> tests \<open>typeof value\<close> at run time, so an entry is
  an optional JSON value (\<open>None\<close> is \<open>undefined\<close>).
\<close>

record gateEffect =
  collisionPenaltyMultiplier :: "json option"
  pickupMultiplier :: "json option"
  speedMultiplier :: "json option"
  drainMultiplier :: "json option"

datatype effectKey =
    CollisionPenaltyMultiplier
  | PickupMultiplier
  | SpeedMultiplier
  | DrainMultiplier

text \<open>\<open>effect[key]\<close> for \<open>key: keyof GateEffect\<close>.\<close>

fun effectEntry :: "gateEffect \<Rightarrow> effectKey \<Rightarrow> json option" where
  "effectEntry e CollisionPenaltyMultiplier = collisionPenaltyMultiplier e"
| "effectEntry e PickupMultiplier = pickupMultiplier e"
| "effectEntry e SpeedMultiplier = speedMultiplier e"
| "effectEntry e DrainMultiplier = drainMultiplier e"

record gateConfig =
  gate_id :: string
  gate_name :: string
  gate_description :: string
  gate_durationSec :: real
  gate_permanent :: "bool option"
  gate_effects :: gateEffect

record obstacleConfig =
  oc_id :: string
  oc_radius :: real
  oc_damage :: real
  oc_color :: string

record upgradeEffect =
  ue_shieldStart :: "real option"
  ue_shieldRegenSec :: "real option"
  ue_obstacleDamageMult :: "real option"
  ue_magnetMult :: "real option"
  ue_soulValueMult :: "real option"
  ue_doubleSoulChance :: "real option"
  ue_bribeCooldownMult :: "real option"
  ue_freeBribeEverySec :: "real option"
  ue_bribeSplashRadius :: "real option"

record upgradeLevelConfig =
  ul_cost :: real
  ul_title :: string
  ul_shortDesc :: string
  ul_effect :: upgradeEffect

record upgradeBranchConfig =
  ub_id :: string
  ub_title :: string
  ub_levels :: "upgradeLevelConfig list"

record gameConfig =
  economy :: economyConfig
  cfg_gates :: "gateConfig list"
  cfg_obstacles :: "obstacleConfig list"
  cfg_upgrades :: "upgradeBranchConfig list"

record saveData =
  bestScore :: real
  walletCoins :: real
  upgrades :: "string \<rightharpoonup> real"

section \<open>Entities and run state (core/Game.ts)\<close>

record vec2 =
  pos_x :: real
  pos_y :: real

record circle = vec2 +
  radius :: real

record obstacleEntity = circle +
  color :: string
  damage :: real

record coinEntity = circle +
  coin_value :: real

record projectileEntity = circle +
  speed :: real

record gatePair =
  gp_y :: real
  gp_left :: "gateConfig option"
  gp_right :: "gateConfig option"
  gp_width :: real
  gp_chosen :: bool

record activeEffect =
  gateId :: string
  effect :: gateEffect
  permanent :: bool
  remainingSec :: real

definition WIDTH :: real where "WIDTH = 900"
definition HEIGHT :: real where "HEIGHT = 520"
definition GATE_GAP :: real where "GATE_GAP = 120"
definition GATE_HEIGHT :: real where "GATE_HEIGHT = 26"
definition REVIVE_INVULN_MS :: real where "REVIVE_INVULN_MS = 1200"
definition BASE_MAGNET_RADIUS :: real where "BASE_MAGNET_RADIUS = 50"
definition BASE_BRIBE_COOLDOWN_SEC :: real where "BASE_BRIBE_COOLDOWN_SEC = 45 / 100"

definition clamp :: "real \<Rightarrow> real \<Rightarrow> real \<Rightarrow> real" where
  "clamp v lo hi = min hi (max lo v)"

definition intersects :: "'a circle_scheme \<Rightarrow> 'b circle_scheme \<Rightarrow> bool" where
  "intersects a b =
     (let dx = pos_x a - pos_x b; dy = pos_y a - pos_y b; rr = radius a + radius b
      in dx * dx + dy * dy \<le> rr * rr)"

definition distanceSq :: "'a vec2_scheme \<Rightarrow> 'b vec2_scheme \<Rightarrow> real" where
  "distanceSq a b = (let dx = pos_x a - pos_x b; dy = pos_y a - pos_y b in dx * dx + dy * dy)"

section \<open>Effect stack: the multiplier of a key\<close>

text \<open>
  \<open>Game.effectMultiplier\<close>: \<open>this.effects.reduce(..., 1)\<close>, the accumulator
  multiplied by every entry whose \<open>typeof\<close> is \<open>'number'\<close>.
\<close>

definition effectMultiplier :: "activeEffect list \<Rightarrow> effectKey \<Rightarrow> real" where
  "effectMultiplier effs key =
     foldl (\<lambda>acc e. case effectEntry (effect e) key of
                        Some (JNum v) \<Rightarrow> acc * v
                      | _ \<Rightarrow> acc) 1 effs"


section \<open>Economy: the drain tier\<close>

text \<open>
  \<open>Game.currentDrainRate\<close> on the tier list of the configuration and the elapsed
  seconds. \<open>Array.prototype.sort\<close> is stable, as \<open>sort_key\<close> is; \<open>tiers[0]?.rate ?? 0\<close>
  is the first rate of the sorted copy, or 0 for an empty list.
\<close>

definition currentDrainRate :: "drainTier list \<Rightarrow> real \<Rightarrow> real" where
  "currentDrainRate tierList elapsed =
     (let tiers = sort_key fromSec tierList;
          current = (case tiers of [] \<Rightarrow> 0 | t # _ \<Rightarrow> rate t)
      in foldl (\<lambda>cur tier. if elapsed \<ge> fromSec tier then rate tier else cur) current tiers)"

section \<open>The game object\<close>

text \<open>
  What a toast shows. The texts of \<open>ui_text_ru.json\<close> and the Cyrillic literals of
  the source are named, not spelled: \<open>UiText f\<close> is \<open>this.uiText.f\<close>,
  \<open>Literal n\<close> a string literal of the source under an ASCII name, and
  \<open>ToastFrom key fallback\<close> is \<open>this.toastFrom(key, fallback)\<close>, whose random
  choice among the configured variants is left open.
\<close>

datatype message =
    NoMessage
  | ContractTitle
  | UiText string
  | Literal string
  | ToastFrom string message
  | PickupToast message int
  | GateChosen string
  | PaidBribeFallback real
  | Purchase string

text \<open>
  The fields of \<open>Game\<close> that the simulation reads and writes. The player's \<open>y\<close>,
  width and speed are never assigned and appear as constants; DOM nodes are left out,
  but for the toast's text and timer. \<open>muted\<close> is the flag of the \<open>AudioManager\<close>,
  \<open>persisted\<close> what \<open>SaveService.store\<close> last wrote, and \<open>loopAlive\<close> says that
  \<open>loop\<close> is still registered with \<open>requestAnimationFrame\<close> (an exception inside
  \<open>update\<close> skips the re-registration). Held movement keys are an input of each frame.
\<close>

record game =
  player_x :: real
  obstacles :: "obstacleEntity list"
  coins :: "coinEntity list"
  projectiles :: "projectileEntity list"
  gates :: "gatePair list"
  effects :: "activeEffect list"
  elapsedSec :: real
  distance :: real
  coinsBalance :: real
  paused :: bool
  manualPaused :: bool
  pausedByUser :: bool
  gameOver :: bool
  runActive :: bool
  deathCount :: real
  reviveInvulnMs :: real
  gameOverBaseScore :: real
  gameOverScoreMultiplier :: real
  soulsCollected :: real
  sessionEarningsBase :: real
  shieldMax :: real
  shieldCount :: real
  shieldRegenSec :: real
  shieldRegenTimer :: real
  obstacleDamageMult :: real
  magnetMult :: real
  soulValueMult :: real
  doubleSoulChance :: real
  bribeCooldownMult :: real
  freeBribeEverySec :: real
  bribeSplashRadius :: real
  bribeCooldownLeftSec :: real
  freeBribeTimerSec :: real
  freeBribeReady :: bool
  obstacleSpawnTimer :: real
  coinSpawnTimer :: real
  gateSpawnTimer :: real
  toastTimer :: real
  toast :: message
  platformPauseDepth :: real
  wasPausedBeforePlatformPause :: bool
  wasMutedBeforePlatformPause :: bool
  muted :: bool
  saveData :: saveData
  persisted :: saveData
  loopAlive :: bool

definition PLAYER_Y :: real where "PLAYER_Y = HEIGHT - 70"
definition PLAYER_W :: real where "PLAYER_W = 50"
definition PLAYER_SPEED :: real where "PLAYER_SPEED = 340"

text \<open>
  A handler either returns or throws (a \<open>TypeError\<close> on a property of
  \<open>undefined\<close>); both leave the object in the state reached so far.
\<close>

datatype outcome = Done game | Threw game

fun stateOf :: "outcome \<Rightarrow> game" where
  "stateOf (Done s) = s"
| "stateOf (Threw s) = s"

text \<open>\<open>xs[i]\<close> for a number \<open>i\<close>: \<open>undefined\<close> unless \<open>i\<close> is an index of \<open>xs\<close>.\<close>

definition at_index :: "'a list \<Rightarrow> real \<Rightarrow> 'a option" where
  "at_index xs i =
     (if i = of_int \<lfloor>i\<rfloor> \<and> 0 \<le> i \<and> i < real (length xs) then Some (xs ! nat \<lfloor>i\<rfloor>) else None)"

definition showToast :: "message \<Rightarrow> game \<Rightarrow> game" where
  "showToast m s = s\<lparr>toast := m, toastTimer := 17 / 10\<rparr>"

text \<open>\<open>SaveService.storeWithCloud(this.saveData)\<close>: the local write; the cloud copy is outside.\<close>

definition storeWithCloud :: "game \<Rightarrow> game" where
  "storeWithCloud s = s\<lparr>persisted := saveData s\<rparr>"

definition forwardSpeed :: "game \<Rightarrow> real" where
  "forwardSpeed s = 150 * effectMultiplier (effects s) SpeedMultiplier"

definition boatBody :: "game \<Rightarrow> circle" where
  "boatBody s = \<lparr>pos_x = player_x s, pos_y = PLAYER_Y, radius = PLAYER_W * (45 / 100)\<rparr>"

subsection \<open>applyGate and updateEffects\<close>

definition truthy :: "bool option \<Rightarrow> bool" where
  "truthy b = (b = Some True)"

definition gateToastKey :: "string \<Rightarrow> string" where
  "gateToastKey i =
     (if i = ''DEBT'' then ''gate_debt''
      else if i = ''MERCY'' \<or> i = ''PLENTY'' then ''gate_safe'' else ''gate_gamble'')"

definition hasPermanentDebt :: "game \<Rightarrow> bool" where
  "hasPermanentDebt s = list_ex (\<lambda>e. permanent e \<and> gateId e = ''DEBT'') (effects s)"

definition applyGate :: "gameConfig \<Rightarrow> gateConfig \<Rightarrow> game \<Rightarrow> game" where
  "applyGate cfg gate s =
     (if truthy (gate_permanent gate) \<and> gate_id gate = ''DEBT'' \<and> hasPermanentDebt s
      then showToast (Literal ''debt_already_issued'') s
      else
        let duration = (if truthy (gate_permanent gate) then 0
                        else if gate_durationSec gate \<noteq> 0 then gate_durationSec gate
                        else gateDurationSec (economy cfg));
            s1 = s\<lparr>effects := effects s @
                   [\<lparr>gateId = gate_id gate, effect = gate_effects gate,
                     permanent = truthy (gate_permanent gate), remainingSec = duration\<rparr>]\<rparr>
        in showToast (ToastFrom (gateToastKey (gate_id gate)) (GateChosen (gate_name gate))) s1)"

definition updateEffects :: "real \<Rightarrow> game \<Rightarrow> game" where
  "updateEffects dt s =
     s\<lparr>effects :=
         filter (\<lambda>e. permanent e \<or> remainingSec e > 0)
           (map (\<lambda>e. if permanent e then e else e\<lparr>remainingSec := remainingSec e - dt\<rparr>)
              (effects s))\<rparr>"

subsection \<open>Random inputs\<close>

text \<open>
  Every \<open>Math.random()\<close> of one frame is an input: a number for each call in
  \<open>spawnAndMove\<close>, the array that the random-comparator sort of \<open>pickTwoGates\<close>
  returns, and the roll for the pickup at each index of \<open>this.coins\<close>.
\<close>

record rnd =
  r_obstacleInterval :: real
  r_template :: real
  r_obstacleX :: real
  r_coinInterval :: real
  r_coinX :: real
  r_shuffled :: "gateConfig list"
  r_doubleSoul :: "nat \<Rightarrow> real"

text \<open>\<open>rand(min, max)\<close> on the value \<open>u\<close> that \<open>Math.random()\<close> returned.\<close>

definition rand :: "real \<Rightarrow> real \<Rightarrow> real \<Rightarrow> real" where
  "rand u lo hi = lo + u * (hi - lo)"

subsection \<open>spawnAndMove\<close>

definition spawnObstacle :: "gameConfig \<Rightarrow> real \<Rightarrow> rnd \<Rightarrow> game \<Rightarrow> outcome" where
  "spawnObstacle cfg dt rn s =
     (let s1 = s\<lparr>obstacleSpawnTimer := obstacleSpawnTimer s - dt\<rparr> in
      if obstacleSpawnTimer s1 \<le> 0 then
        (let s2 = s1\<lparr>obstacleSpawnTimer := rand (r_obstacleInterval rn) (8 / 10) (14 / 10)\<rparr> in
         case at_index (cfg_obstacles cfg)
                (of_int \<lfloor>r_template rn * real (length (cfg_obstacles cfg))\<rfloor>) of
           None \<Rightarrow> Threw s2
         | Some template \<Rightarrow>
             Done (s2\<lparr>obstacles := obstacles s2 @
                     [\<lparr>pos_x = rand (r_obstacleX rn) (oc_radius template) (WIDTH - oc_radius template),
                       pos_y = - 40,
                       radius = oc_radius template,
                       color = oc_color template,
                       damage = oc_damage template\<rparr>]\<rparr>))
      else Done s1)"

definition spawnCoin :: "gameConfig \<Rightarrow> real \<Rightarrow> rnd \<Rightarrow> game \<Rightarrow> game" where
  "spawnCoin cfg dt rn s =
     (let s1 = s\<lparr>coinSpawnTimer := coinSpawnTimer s - dt\<rparr> in
      if coinSpawnTimer s1 \<le> 0 then
        (let s2 = s1\<lparr>coinSpawnTimer := rand (r_coinInterval rn) (45 / 100) (9 / 10)\<rparr> in
         s2\<lparr>coins := coins s2 @
               [\<lparr>pos_x = rand (r_coinX rn) 24 (WIDTH - 24), pos_y = - 20, radius = 10,
                 coin_value = pickupValue (economy cfg)\<rparr>]\<rparr>)
      else s1)"

text \<open>
  \<open>pickTwoGates\<close> returns \<open>shuffled[0]\<close> and \<open>shuffled[1]\<close>, each \<open>undefined\<close>
  when the configuration has too few gates.
\<close>

definition pickTwoGates :: "rnd \<Rightarrow> gateConfig option \<times> gateConfig option" where
  "pickTwoGates rn = (at_index (r_shuffled rn) 0, at_index (r_shuffled rn) 1)"

definition spawnGate :: "gameConfig \<Rightarrow> real \<Rightarrow> rnd \<Rightarrow> game \<Rightarrow> game" where
  "spawnGate cfg dt rn s =
     (let s1 = s\<lparr>gateSpawnTimer := gateSpawnTimer s - dt\<rparr> in
      if gateSpawnTimer s1 \<le> 0 then
        (let s2 = s1\<lparr>gateSpawnTimer := gateIntervalSec (economy cfg)\<rparr>;
             (left, right) = pickTwoGates rn
         in s2\<lparr>gates := gates s2 @
                 [\<lparr>gp_y = - 60, gp_left = left, gp_right = right, gp_width = 170,
                   gp_chosen = False\<rparr>]\<rparr>)
      else s1)"

definition moveEntities :: "real \<Rightarrow> real \<Rightarrow> game \<Rightarrow> game" where
  "moveEntities scrollSpeed dt s =
     s\<lparr>obstacles := map (\<lambda>obstacle. obstacle\<lparr>pos_y := pos_y obstacle + scrollSpeed * dt\<rparr>) (obstacles s),
       coins := map (\<lambda>coin. coin\<lparr>pos_y := pos_y coin + scrollSpeed * dt\<rparr>) (coins s),
       gates := map (\<lambda>gate. gate\<lparr>gp_y := gp_y gate + scrollSpeed * dt\<rparr>) (gates s),
       projectiles := map (\<lambda>projectile. projectile\<lparr>pos_y := pos_y projectile - speed projectile * dt\<rparr>)
                        (projectiles s)\<rparr>"

definition cullEntities :: "game \<Rightarrow> game" where
  "cullEntities s =
     s\<lparr>obstacles := filter (\<lambda>entity. pos_y entity < HEIGHT + 40) (obstacles s),
       coins := filter (\<lambda>entity. pos_y entity < HEIGHT + 30) (coins s),
       gates := filter (\<lambda>entity. gp_y entity < HEIGHT + 80) (gates s),
       projectiles := filter (\<lambda>entity. pos_y entity > - 20) (projectiles s)\<rparr>"

definition spawnAndMove :: "gameConfig \<Rightarrow> real \<Rightarrow> rnd \<Rightarrow> game \<Rightarrow> outcome" where
  "spawnAndMove cfg dt rn s =
     (let scrollSpeed = forwardSpeed s in
      case spawnObstacle cfg dt rn s of
        Threw t \<Rightarrow> Threw t
      | Done s1 \<Rightarrow>
          Done (cullEntities (moveEntities scrollSpeed dt (spawnGate cfg dt rn (spawnCoin cfg dt rn s1)))))"

subsection \<open>handleCollisions\<close>

text \<open>
  \<open>Array.prototype.filter\<close> with a callback that also assigns fields of \<open>this\<close>: the
  callback returns whether the element stays, and the state it leaves.
\<close>

fun filterWith :: "('a \<Rightarrow> game \<Rightarrow> bool \<times> game) \<Rightarrow> 'a list \<Rightarrow> game \<Rightarrow> 'a list \<times> game" where
  "filterWith f [] s = ([], s)"
| "filterWith f (x # xs) s =
     (case f x s of (keep, s1) \<Rightarrow>
        (case filterWith f xs s1 of (kept, s2) \<Rightarrow> (if keep then x # kept else kept, s2)))"

text \<open>The callback of the pickup filter, for the coin at index \<open>i\<close>.\<close>

definition coinStep ::
  "circle \<Rightarrow> real \<Rightarrow> (nat \<Rightarrow> real) \<Rightarrow> nat \<times> coinEntity \<Rightarrow> game \<Rightarrow> bool \<times> game" where
  "coinStep boat magnetRadiusSq roll ic s =
     (let coin = snd ic;
          inMagnet = distanceSq boat coin \<le> magnetRadiusSq
      in if \<not> inMagnet \<and> \<not> intersects boat coin then (True, s)
         else
           let v = coin_value coin * soulValueMult s * effectMultiplier (effects s) PickupMultiplier;
               s1 = s\<lparr>soulsCollected := soulsCollected s + 1\<rparr>;
               doubled = (roll (fst ic) < doubleSoulChance s1);
               v2 = (if doubled
                     then v + coin_value coin * soulValueMult s1
                              * effectMultiplier (effects s1) PickupMultiplier
                     else v);
               s2 = (if doubled then s1\<lparr>soulsCollected := soulsCollected s1 + 1\<rparr> else s1);
               s3 = s2\<lparr>coinsBalance := coinsBalance s2 + v2\<rparr>
           in (False,
               showToast (PickupToast (ToastFrom ''pick_soul'' (UiText ''coinPickup'')) \<lfloor>v2 + 1 / 2\<rfloor>) s3))"

text \<open>The callback of the obstacle filter.\<close>

definition obstacleStep :: "gameConfig \<Rightarrow> circle \<Rightarrow> obstacleEntity \<Rightarrow> game \<Rightarrow> bool \<times> game" where
  "obstacleStep cfg boat obstacle s =
     (if \<not> intersects boat obstacle then (True, s)
      else if reviveInvulnMs s \<le> 0 then
        (if shieldCount s > 0 then
           (False, showToast (Literal ''shield_absorbed'')
                     (s\<lparr>shieldCount := shieldCount s - 1, shieldRegenTimer := shieldRegenSec s\<rparr>))
         else
           let penalty = collisionPenalty (economy cfg)
                           * damage obstacle
                           * effectMultiplier (effects s) CollisionPenaltyMultiplier
                           * obstacleDamageMult s
           in (False, showToast (ToastFrom ''hit_obstacle'' (UiText ''hitObstacle''))
                        (s\<lparr>coinsBalance := coinsBalance s - penalty\<rparr>)))
      else (False, s))"

definition gateRects :: "gatePair \<Rightarrow> real \<times> real \<times> real" where
  "gateRects gate =
     (let center = WIDTH / 2;
          leftX = center - GATE_GAP - gp_width gate;
          rightX = center + GATE_GAP
      in (leftX, rightX, gp_width gate))"

text \<open>
  \<open>gate.chosen = true; this.applyGate(option)\<close> for the gate at index \<open>i\<close> of
  \<open>this.gates\<close>; \<open>applyGate\<close> throws on an \<open>undefined\<close> option, after the flag is set.
\<close>

definition chooseOption ::
  "gameConfig \<Rightarrow> nat \<Rightarrow> gatePair \<Rightarrow> gateConfig option \<Rightarrow> game \<Rightarrow> outcome" where
  "chooseOption cfg i gate option s =
     (let s1 = s\<lparr>gates := (gates s)[i := gate\<lparr>gp_chosen := True\<rparr>]\<rparr> in
      case option of None \<Rightarrow> Threw s1 | Some g \<Rightarrow> Done (applyGate cfg g s1))"

text \<open>The body of the loop over \<open>this.gates\<close>, for the gate at index \<open>i\<close>.\<close>

definition gateStep :: "gameConfig \<Rightarrow> nat \<Rightarrow> gatePair \<Rightarrow> game \<Rightarrow> outcome" where
  "gateStep cfg i gate s =
     (if gp_chosen gate then Done s
      else if \<bar>gp_y gate - PLAYER_Y\<bar> > GATE_HEIGHT then Done s
      else
        case gateRects gate of (leftX, rightX, width) \<Rightarrow>
          let leftCenter = leftX + width * (1 / 2);
              rightCenter = rightX + width * (1 / 2);
              inLeftRect = (player_x s \<ge> leftX \<and> player_x s \<le> leftX + width);
              inRightRect = (player_x s \<ge> rightX \<and> player_x s \<le> rightX + width)
          in if inLeftRect then chooseOption cfg i gate (gp_left gate) s
             else if inRightRect then chooseOption cfg i gate (gp_right gate) s
             else
               let distanceLeft = \<bar>player_x s - leftCenter\<bar>;
                   distanceRight = \<bar>player_x s - rightCenter\<bar>
               in chooseOption cfg i gate
                    (if distanceLeft \<le> distanceRight then gp_left gate else gp_right gate) s)"

fun chooseGates :: "gameConfig \<Rightarrow> nat \<Rightarrow> gatePair list \<Rightarrow> game \<Rightarrow> outcome" where
  "chooseGates cfg i [] s = Done s"
| "chooseGates cfg i (gate # rest) s =
     (case gateStep cfg i gate s of
        Threw t \<Rightarrow> Threw t
      | Done s1 \<Rightarrow> chooseGates cfg (Suc i) rest s1)"

definition findIndex :: "('a \<Rightarrow> bool) \<Rightarrow> 'a list \<Rightarrow> nat option" where
  "findIndex P xs =
     (if list_ex P xs then Some (length (takeWhile (\<lambda>x. \<not> P x) xs)) else None)"

text \<open>The callback of the projectile filter; it splices and filters \<open>this.obstacles\<close>.\<close>

definition projectileStep :: "projectileEntity \<Rightarrow> game \<Rightarrow> bool \<times> game" where
  "projectileStep projectile s =
     (case findIndex (\<lambda>obstacle. intersects projectile obstacle) (obstacles s) of
        None \<Rightarrow> (True, s)
      | Some targetIndex \<Rightarrow>
          let hit = obstacles s ! targetIndex;
              s1 = s\<lparr>obstacles := take targetIndex (obstacles s) @ drop (Suc targetIndex) (obstacles s)\<rparr>;
              s2 = (if bribeSplashRadius s1 > 0 then
                      let splashSq = bribeSplashRadius s1 * bribeSplashRadius s1
                      in s1\<lparr>obstacles := filter (\<lambda>obstacle. distanceSq obstacle hit > splashSq)
                                           (obstacles s1)\<rparr>
                    else s1)
          in (False, s2))"

text \<open>The four passes of \<open>handleCollisions\<close>, in its order.\<close>

definition collectCoins :: "circle \<Rightarrow> real \<Rightarrow> rnd \<Rightarrow> game \<Rightarrow> game" where
  "collectCoins boat magnetRadiusSq rn s =
     (case filterWith (coinStep boat magnetRadiusSq (r_doubleSoul rn)) (enumerate 0 (coins s)) s of
        (kept, s1) \<Rightarrow> s1\<lparr>coins := map snd kept\<rparr>)"

definition hitObstacles :: "gameConfig \<Rightarrow> circle \<Rightarrow> game \<Rightarrow> game" where
  "hitObstacles cfg boat s =
     (case filterWith (obstacleStep cfg boat) (obstacles s) s of
        (kept, s1) \<Rightarrow> s1\<lparr>obstacles := kept\<rparr>)"

definition hitProjectiles :: "game \<Rightarrow> game" where
  "hitProjectiles s =
     (case filterWith projectileStep (projectiles s) s of
        (kept, s1) \<Rightarrow> s1\<lparr>projectiles := kept\<rparr>)"

definition handleCollisions :: "gameConfig \<Rightarrow> rnd \<Rightarrow> game \<Rightarrow> outcome" where
  "handleCollisions cfg rn s =
     (let boat = boatBody s;
          magnetRadius = BASE_MAGNET_RADIUS * magnetMult s;
          magnetRadiusSq = magnetRadius * magnetRadius;
          s1 = collectCoins boat magnetRadiusSq rn s;
          s2 = hitObstacles cfg boat s1
      in case chooseGates cfg 0 (gates s2) s2 of
           Threw t \<Rightarrow> Threw t
         | Done s3 \<Rightarrow> Done (hitProjectiles s3))"

subsection \<open>Game over, and one step of the simulation\<close>

definition triggerGameOver :: "game \<Rightarrow> game" where
  "triggerGameOver s =
     (let earnings = max 0 (of_int \<lfloor>distance s / 10\<rfloor> + soulsCollected s
                             + of_int \<lfloor>max 0 (coinsBalance s) / 10\<rfloor>);
          s1 = s\<lparr>sessionEarningsBase := earnings,
                 saveData := (saveData s)\<lparr>walletCoins := walletCoins (saveData s) + earnings\<rparr>\<rparr>;
          s2 = s1\<lparr>gameOver := True, paused := True, pausedByUser := False, runActive := False,
                  coinsBalance := 0, deathCount := deathCount s1 + 1\<rparr>;
          s3 = s2\<lparr>gameOverBaseScore := of_int \<lfloor>distance s2\<rfloor>, gameOverScoreMultiplier := 1\<rparr>;
          s4 = (if gameOverBaseScore s3 > bestScore (saveData s3)
                then s3\<lparr>saveData := (saveData s3)\<lparr>bestScore := gameOverBaseScore s3\<rparr>\<rparr>
                else s3);
          s5 = showToast (ToastFrom ''game_over'' (UiText ''gameOver'')) s4;
          s6 = s5\<lparr>muted := True\<rparr>
      in storeWithCloud s6)"

text \<open>The first lines of \<open>update\<close>: clocks and cooldowns.\<close>

definition advanceClocks :: "real \<Rightarrow> game \<Rightarrow> game" where
  "advanceClocks dt s =
     (let s1 = s\<lparr>elapsedSec := elapsedSec s + dt\<rparr>;
          s2 = s1\<lparr>distance := distance s1 + forwardSpeed s1 * dt\<rparr>;
          s3 = s2\<lparr>reviveInvulnMs := max 0 (reviveInvulnMs s2 - dt * 1000)\<rparr>
      in s3\<lparr>bribeCooldownLeftSec := max 0 (bribeCooldownLeftSec s3 - dt)\<rparr>)"

definition tickFreeBribe :: "real \<Rightarrow> game \<Rightarrow> game" where
  "tickFreeBribe dt s =
     (if freeBribeEverySec s > 0 \<and> \<not> freeBribeReady s then
        (let s1 = s\<lparr>freeBribeTimerSec := freeBribeTimerSec s - dt\<rparr> in
         if freeBribeTimerSec s1 \<le> 0 then s1\<lparr>freeBribeReady := True\<rparr> else s1)
      else s)"

definition regenShield :: "real \<Rightarrow> game \<Rightarrow> game" where
  "regenShield dt s =
     (if shieldRegenSec s > 0 \<and> shieldCount s < shieldMax s then
        (let s1 = s\<lparr>shieldRegenTimer := shieldRegenTimer s - dt\<rparr> in
         if shieldRegenTimer s1 \<le> 0
         then s1\<lparr>shieldCount := shieldCount s1 + 1, shieldRegenTimer := shieldRegenSec s1\<rparr>
         else s1)
      else s)"

text \<open>\<open>moveDir\<close> is -1, 0 or 1, from the held keys.\<close>

definition movePlayer :: "real \<Rightarrow> real \<Rightarrow> game \<Rightarrow> game" where
  "movePlayer dt moveDir s =
     s\<lparr>player_x := clamp (player_x s + moveDir * PLAYER_SPEED * dt) (PLAYER_W / 2) (WIDTH - PLAYER_W / 2)\<rparr>"

definition drainCoins :: "gameConfig \<Rightarrow> real \<Rightarrow> game \<Rightarrow> game" where
  "drainCoins cfg dt s =
     (let drain = currentDrainRate (coinDrainTiers (economy cfg)) (elapsedSec s)
                    * effectMultiplier (effects s) DrainMultiplier * dt
      in s\<lparr>coinsBalance := coinsBalance s - drain\<rparr>)"

definition tickToast :: "real \<Rightarrow> game \<Rightarrow> game" where
  "tickToast dt s = (if toastTimer s > 0 then s\<lparr>toastTimer := toastTimer s - dt\<rparr> else s)"

definition update :: "gameConfig \<Rightarrow> real \<Rightarrow> real \<Rightarrow> rnd \<Rightarrow> game \<Rightarrow> outcome" where
  "update cfg dt moveDir rn s =
     (let s1 = advanceClocks dt s;
          s2 = tickFreeBribe dt s1;
          s3 = regenShield dt s2;
          s4 = movePlayer dt moveDir s3;
          s5 = drainCoins cfg dt s4
      in case spawnAndMove cfg dt rn s5 of
           Threw t \<Rightarrow> Threw t
         | Done s6 \<Rightarrow>
             (case handleCollisions cfg rn s6 of
                Threw t \<Rightarrow> Threw t
              | Done s7 \<Rightarrow>
                  let s8 = updateEffects dt s7;
                      s9 = tickToast dt s8
                  in Done (if coinsBalance s9 \<le> 0 then triggerGameOver s9 else s9)))"

text \<open>
  \<open>loop\<close>, on the milliseconds since the previous frame. When \<open>update\<close> throws, the
  callback is not registered again.
\<close>

definition loop :: "gameConfig \<Rightarrow> real \<Rightarrow> real \<Rightarrow> rnd \<Rightarrow> game \<Rightarrow> game" where
  "loop cfg elapsedMs moveDir rn s =
     (if \<not> loopAlive s then s
      else
        let dt = min (elapsedMs / 1000) (5 / 100) in
        if \<not> paused s \<and> \<not> gameOver s \<and> runActive s then
          (case update cfg dt moveDir rn s of
             Done s' \<Rightarrow> s'
           | Threw s' \<Rightarrow> s'\<lparr>loopAlive := False\<rparr>)
        else s)"

subsection \<open>The bribe shot\<close>

text \<open>\<open>fireBribe\<close>, on the value \<open>u\<close> that its \<open>Math.random()\<close> returned.\<close>

definition fireBribe :: "gameConfig \<Rightarrow> real \<Rightarrow> game \<Rightarrow> game" where
  "fireBribe cfg u s =
     (if paused s \<or> gameOver s \<or> \<not> runActive s then s
      else if bribeCooldownLeftSec s > 0 then s
      else
        let randomFreeShot = (u < freeBribeChance (economy cfg));
            timerFreeShot = freeBribeReady s;
            freeShot = (randomFreeShot \<or> timerFreeShot)
        in if \<not> freeShot \<and> coinsBalance s < bribeShotCost (economy cfg)
           then showToast (UiText ''insufficientCoins'') s
           else
             let s1 = (if timerFreeShot
                       then s\<lparr>freeBribeReady := False, freeBribeTimerSec := freeBribeEverySec s\<rparr>
                       else s);
                 s2 = (if \<not> freeShot then
                         let cost = bribeShotCost (economy cfg)
                         in showToast (ToastFrom ''bribe_shot''
                                         (if cost = 1 then UiText ''paidBribe'' else PaidBribeFallback cost))
                              (s1\<lparr>coinsBalance := coinsBalance s1 - cost\<rparr>)
                       else showToast (UiText ''freeBribe'') s1);
                 s3 = s2\<lparr>bribeCooldownLeftSec := BASE_BRIBE_COOLDOWN_SEC * bribeCooldownMult s2\<rparr>
             in s3\<lparr>projectiles := projectiles s3 @
                      [\<lparr>pos_x = player_x s3, pos_y = PLAYER_Y - 20, radius = 8, speed = 450\<rparr>]\<rparr>)"

subsection \<open>Starting a run\<close>

definition reset :: "gameConfig \<Rightarrow> game \<Rightarrow> game" where
  "reset cfg s =
     s\<lparr>elapsedSec := 0, distance := 0, coinsBalance := startCoins (economy cfg),
       paused := True, manualPaused := False, pausedByUser := False, gameOver := False,
       reviveInvulnMs := 0, gameOverBaseScore := 0, gameOverScoreMultiplier := 1,
       soulsCollected := 0, sessionEarningsBase := 0,
       shieldMax := 0, shieldCount := 0, shieldRegenSec := 0, shieldRegenTimer := 0,
       obstacleDamageMult := 1, magnetMult := 1, soulValueMult := 1, doubleSoulChance := 0,
       bribeCooldownMult := 1, freeBribeEverySec := 0, bribeSplashRadius := 0,
       bribeCooldownLeftSec := 0, freeBribeTimerSec := 0, freeBribeReady := False,
       obstacles := [], coins := [], projectiles := [], gates := [], effects := [],
       gateSpawnTimer := (case firstGateDelaySec (economy cfg) of None \<Rightarrow> 18 | Some d \<Rightarrow> d),
       muted := False\<rparr>"

definition noEffect :: upgradeEffect where
  "noEffect =
     \<lparr>ue_shieldStart = None, ue_shieldRegenSec = None, ue_obstacleDamageMult = None,
      ue_magnetMult = None, ue_soulValueMult = None, ue_doubleSoulChance = None,
      ue_bribeCooldownMult = None, ue_freeBribeEverySec = None, ue_bribeSplashRadius = None\<rparr>"

text \<open>\<open>v ?? d\<close> on an optional number.\<close>

definition orElse :: "real option \<Rightarrow> real \<Rightarrow> real" where
  "orElse v d = (case v of None \<Rightarrow> d | Some x \<Rightarrow> x)"

text \<open>
  \<open>currentLevelEffect\<close>; \<open>None\<close> is the \<open>TypeError\<close> of \<open>selectedLevel.effect\<close> when
  the index selects no level.
\<close>

definition currentLevelEffect :: "gameConfig \<Rightarrow> game \<Rightarrow> string \<Rightarrow> upgradeEffect option" where
  "currentLevelEffect cfg s branchId =
     (case find (\<lambda>item. ub_id item = branchId) (cfg_upgrades cfg) of
        None \<Rightarrow> Some noEffect
      | Some branch \<Rightarrow>
          let level = orElse (upgrades (saveData s) (ub_id branch)) 0 in
          if level \<le> 0 then Some noEffect
          else
            (case at_index (ub_levels branch) (min level (real (length (ub_levels branch))) - 1) of
               None \<Rightarrow> None
             | Some selectedLevel \<Rightarrow> Some (ul_effect selectedLevel)))"

definition applyDefense :: "upgradeEffect \<Rightarrow> game \<Rightarrow> game" where
  "applyDefense defense s =
     (let s1 = s\<lparr>shieldMax := max 0 (of_int \<lfloor>orElse (ue_shieldStart defense) 0\<rfloor>)\<rparr>;
          s2 = s1\<lparr>shieldCount := shieldMax s1\<rparr>;
          s3 = s2\<lparr>shieldRegenSec := max 0 (orElse (ue_shieldRegenSec defense) 0)\<rparr>;
          s4 = s3\<lparr>shieldRegenTimer := shieldRegenSec s3\<rparr>
      in s4\<lparr>obstacleDamageMult := max (1 / 10) (orElse (ue_obstacleDamageMult defense) 1)\<rparr>)"

definition applyFarm :: "upgradeEffect \<Rightarrow> game \<Rightarrow> game" where
  "applyFarm farm s =
     s\<lparr>magnetMult := max 1 (orElse (ue_magnetMult farm) 1),
       soulValueMult := max (1 / 10) (orElse (ue_soulValueMult farm) 1),
       doubleSoulChance := clamp (orElse (ue_doubleSoulChance farm) 0) 0 1\<rparr>"

definition applySkills :: "upgradeEffect \<Rightarrow> game \<Rightarrow> game" where
  "applySkills skills s =
     (let s1 = s\<lparr>bribeCooldownMult := max (2 / 10) (orElse (ue_bribeCooldownMult skills) 1),
                 freeBribeEverySec := max 0 (orElse (ue_freeBribeEverySec skills) 0),
                 bribeSplashRadius := max 0 (orElse (ue_bribeSplashRadius skills) 0),
                 bribeCooldownLeftSec := 0,
                 freeBribeReady := False\<rparr>
      in s1\<lparr>freeBribeTimerSec := freeBribeEverySec s1\<rparr>)"

definition applyMetaUpgradesForRun :: "gameConfig \<Rightarrow> game \<Rightarrow> outcome" where
  "applyMetaUpgradesForRun cfg s =
     (case currentLevelEffect cfg s ''defense'' of
        None \<Rightarrow> Threw s
      | Some defense \<Rightarrow>
          let s1 = applyDefense defense s in
          (case currentLevelEffect cfg s1 ''farm'' of
             None \<Rightarrow> Threw s1
           | Some farm \<Rightarrow>
               let s2 = applyFarm farm s1 in
               (case currentLevelEffect cfg s2 ''skills'' of
                  None \<Rightarrow> Threw s2
                | Some skills \<Rightarrow> Done (applySkills skills s2))))"

definition startNewRun :: "gameConfig \<Rightarrow> game \<Rightarrow> outcome" where
  "startNewRun cfg s =
     (let s1 = reset cfg s;
          s2 = s1\<lparr>runActive := True, paused := False, manualPaused := False,
                  pausedByUser := False, muted := False\<rparr>
      in case applyMetaUpgradesForRun cfg s2 of
           Threw t \<Rightarrow> Threw t
         | Done s3 \<Rightarrow> Done (showToast (ToastFrom ''start_run'' ContractTitle) s3))"

subsection \<open>Event handlers of bindEvents\<close>

definition pauseClick :: "game \<Rightarrow> game" where
  "pauseClick s =
     (if gameOver s \<or> \<not> runActive s then s
      else
        let s1 = (if paused s
                  then s\<lparr>paused := False, manualPaused := False, pausedByUser := False\<rparr>
                  else s\<lparr>paused := True, manualPaused := True, pausedByUser := True\<rparr>)
        in showToast (if paused s1 then UiText ''paused'' else UiText ''resumed'') s1)"

definition visibilityChange :: "bool \<Rightarrow> game \<Rightarrow> game" where
  "visibilityChange hidden s =
     (if hidden then
        showToast (Literal ''paused_tab_hidden'')
          (s\<lparr>paused := True, manualPaused := False, pausedByUser := False\<rparr>)
      else if runActive s then
        showToast (Literal ''returned_press_continue'')
          (s\<lparr>paused := True, manualPaused := True, pausedByUser := False\<rparr>)
      else s)"

text \<open>The callbacks given to \<open>platform.onPause\<close> and \<open>platform.onResume\<close>.\<close>

definition platformPause :: "game \<Rightarrow> game" where
  "platformPause s =
     (let s1 = (if platformPauseDepth s = 0
                then s\<lparr>wasPausedBeforePlatformPause := paused s,
                       wasMutedBeforePlatformPause := muted s\<rparr>
                else s)
      in s1\<lparr>platformPauseDepth := platformPauseDepth s1 + 1, paused := True,
             pausedByUser := False, muted := True\<rparr>)"

definition platformResume :: "game \<Rightarrow> game" where
  "platformResume s =
     (if platformPauseDepth s \<le> 0 then s
      else
        let s1 = s\<lparr>platformPauseDepth := platformPauseDepth s - 1\<rparr> in
        if platformPauseDepth s1 > 0 then s1
        else
          let shouldStayPaused = (gameOver s1 \<or> manualPaused s1 \<or> wasPausedBeforePlatformPause s1)
          in s1\<lparr>paused := shouldStayPaused, muted := wasMutedBeforePlatformPause s1\<rparr>)"

text \<open>
  The two rewarded buttons await \<open>platform.showRewarded()\<close>; \<open>rewarded\<close> is what it
  resolved to, and the handler is taken as one step.
\<close>

definition reviveClick :: "bool \<Rightarrow> game \<Rightarrow> game" where
  "reviveClick rewarded s =
     (if \<not> gameOver s then s
      else if \<not> rewarded then s
      else
        showToast (ToastFrom ''rewarded_revive'' (Literal ''second_chance_approved''))
          (s\<lparr>coinsBalance := 50, gameOver := False, paused := False, manualPaused := False,
             projectiles := [], obstacles := [], reviveInvulnMs := REVIVE_INVULN_MS,
             muted := False\<rparr>))"

definition rewardX2Click :: "bool \<Rightarrow> game \<Rightarrow> game" where
  "rewardX2Click rewarded s =
     (if \<not> gameOver s \<or> gameOverScoreMultiplier s = 2 then s
      else if \<not> rewarded then s
      else
        let s1 = s\<lparr>gameOverScoreMultiplier := 2\<rparr>;
            boostedScore = gameOverBaseScore s1 * gameOverScoreMultiplier s1;
            s2 = (if boostedScore > bestScore (saveData s1)
                  then s1\<lparr>saveData := (saveData s1)\<lparr>bestScore := boostedScore\<rparr>\<rparr>
                  else s1);
            bonus = sessionEarningsBase s2;
            s3 = (if bonus > 0
                  then s2\<lparr>saveData := (saveData s2)\<lparr>walletCoins := walletCoins (saveData s2) + bonus\<rparr>\<rparr>
                  else s2)
        in showToast (Literal ''x2_earnings_locked'') (storeWithCloud s3))"

definition restartClick :: "game \<Rightarrow> game" where
  "restartClick s =
     s\<lparr>runActive := False, paused := True, manualPaused := False, pausedByUser := False\<rparr>"

definition buyUpgrade :: "gameConfig \<Rightarrow> string \<Rightarrow> game \<Rightarrow> game" where
  "buyUpgrade cfg branchId s =
     (case find (\<lambda>item. ub_id item = branchId) (cfg_upgrades cfg) of
        None \<Rightarrow> s
      | Some branch \<Rightarrow>
          let level = orElse (upgrades (saveData s) (ub_id branch)) 0 in
          (case at_index (ub_levels branch) level of
             None \<Rightarrow> s
           | Some next \<Rightarrow>
               if walletCoins (saveData s) < ul_cost next
               then showToast (Literal ''not_enough_obols_in_wallet'') s
               else
                 let s1 = s\<lparr>saveData := (saveData s)
                            \<lparr>walletCoins := walletCoins (saveData s) - ul_cost next,
                             upgrades := (upgrades (saveData s))(ub_id branch \<mapsto> level + 1)\<rparr>\<rparr>
                 in showToast (Purchase (ul_title next)) (storeWithCloud s1)))"

text \<open>\<open>SaveService.defaults\<close>, as the typed \<open>SaveData\<close>.\<close>

definition defaults :: "upgradeBranchConfig list \<Rightarrow> saveData" where
  "defaults ups =
     \<lparr>bestScore = 0, walletCoins = 0,
      upgrades = map_of (rev (map (\<lambda>upgrade. (ub_id upgrade, 0)) ups))\<rparr>"

definition handleProgressReset :: "gameConfig \<Rightarrow> bool \<Rightarrow> game \<Rightarrow> game" where
  "handleProgressReset cfg confirmed s =
     (if \<not> confirmed then s
      else
        let s1 = s\<lparr>saveData := defaults (cfg_upgrades cfg)\<rparr>
        in showToast (Literal ''progress_reset'') (s1\<lparr>persisted := defaults (cfg_upgrades cfg)\<rparr>))"

definition onPointerMove :: "real \<Rightarrow> game \<Rightarrow> game" where
  "onPointerMove normalizedX s =
     s\<lparr>player_x := clamp (normalizedX * WIDTH) (PLAYER_W / 2) (WIDTH - PLAYER_W / 2)\<rparr>"

subsection \<open>Reachable states\<close>

text \<open>The object as the constructor leaves it, on the save data that was loaded.\<close>

definition initial :: "saveData \<Rightarrow> game" where
  "initial sd =
     \<lparr>player_x = WIDTH / 2, obstacles = [], coins = [], projectiles = [], gates = [],
      effects = [], elapsedSec = 0, distance = 0, coinsBalance = 0, paused = True,
      manualPaused = False, pausedByUser = False, gameOver = False, runActive = False,
      deathCount = 0, reviveInvulnMs = 0, gameOverBaseScore = 0, gameOverScoreMultiplier = 1,
      soulsCollected = 0, sessionEarningsBase = 0, shieldMax = 0, shieldCount = 0,
      shieldRegenSec = 0, shieldRegenTimer = 0, obstacleDamageMult = 1, magnetMult = 1,
      soulValueMult = 1, doubleSoulChance = 0, bribeCooldownMult = 1, freeBribeEverySec = 0,
      bribeSplashRadius = 0, bribeCooldownLeftSec = 0, freeBribeTimerSec = 0,
      freeBribeReady = False, obstacleSpawnTimer = 0, coinSpawnTimer = 0, gateSpawnTimer = 0,
      toastTimer = 17 / 10, toast = ContractTitle, platformPauseDepth = 0,
      wasPausedBeforePlatformPause = False, wasMutedBeforePlatformPause = False,
      muted = False, saveData = sd, persisted = sd, loopAlive = True\<rparr>"

datatype event =
    Frame real real rnd
  | BribePressed real
  | PauseClicked
  | StartRunClicked
  | VisibilityChanged bool
  | PlatformPaused
  | PlatformResumed
  | ReviveClicked bool
  | RewardX2Clicked bool
  | RestartClicked
  | BuyClicked string
  | ResetProgressClicked bool
  | PointerMoved real

fun handle :: "gameConfig \<Rightarrow> event \<Rightarrow> game \<Rightarrow> game" where
  "handle cfg (Frame elapsedMs moveDir rn) s = loop cfg elapsedMs moveDir rn s"
| "handle cfg (BribePressed u) s = fireBribe cfg u s"
| "handle cfg PauseClicked s = pauseClick s"
| "handle cfg StartRunClicked s = stateOf (startNewRun cfg s)"
| "handle cfg (VisibilityChanged hidden) s = visibilityChange hidden s"
| "handle cfg PlatformPaused s = platformPause s"
| "handle cfg PlatformResumed s = platformResume s"
| "handle cfg (ReviveClicked rewarded) s = reviveClick rewarded s"
| "handle cfg (RewardX2Clicked rewarded) s = rewardX2Click rewarded s"
| "handle cfg RestartClicked s = restartClick s"
| "handle cfg (BuyClicked branchId) s = buyUpgrade cfg branchId s"
| "handle cfg (ResetProgressClicked confirmed) s = handleProgressReset cfg confirmed s"
| "handle cfg (PointerMoved normalizedX) s = onPointerMove normalizedX s"

inductive reachable :: "gameConfig \<Rightarrow> game \<Rightarrow> bool" for cfg :: gameConfig where
  reach_initial: "reachable cfg (initial sd)"
| reach_step: "reachable cfg s \<Longrightarrow> reachable cfg (handle cfg ev s)"


subsection \<open>Predicates on states\<close>

text \<open>The shield count is a whole number between 0 and the capacity, itself whole.\<close>

definition shieldsWithinCapacity :: "game \<Rightarrow> bool" where
  "shieldsWithinCapacity s =
     (0 \<le> shieldCount s \<and> shieldCount s \<le> shieldMax s
      \<and> shieldCount s = of_int \<lfloor>shieldCount s\<rfloor> \<and> shieldMax s = of_int \<lfloor>shieldMax s\<rfloor>)"


section \<open>SaveService.load (services/SaveService.ts)\<close>

text \<open>
  \<open>load\<close> casts the parsed payload to \<open>Partial<SaveData>\<close> and checks nothing, so the
  fields of what it returns are JSON values, whatever the type \<open>SaveData\<close> says.
\<close>

record loadedSave =
  ls_bestScore :: json
  ls_walletCoins :: json
  ls_upgrades :: "string \<rightharpoonup> json"

text \<open>\<open>SaveService.defaults\<close>, as the value \<open>load\<close> starts from.\<close>

definition loadDefaults :: "upgradeBranchConfig list \<Rightarrow> loadedSave" where
  "loadDefaults ups =
     \<lparr>ls_bestScore = JNum 0, ls_walletCoins = JNum 0,
      ls_upgrades = map_of (rev (map (\<lambda>upgrade. (ub_id upgrade, JNum 0)) ups))\<rparr>"

datatype exn = StorageError | SyntaxError | TypeError

text \<open>What \<open>localStorage.getItem\<close> did: it threw, or returned a string or \<open>null\<close>.\<close>

datatype storageRead = GetItemThrows | GetItem "string option"

text \<open>
  \<open>parsed.k\<close> for the three keys that \<open>load\<close> reads: a \<open>TypeError\<close> on \<open>null\<close>, the
  property of an object, and \<open>undefined\<close> (\<open>None\<close>) on a number, a boolean, a string or
  an array, which have no property of these names.
\<close>

fun getProp :: "json \<Rightarrow> string \<Rightarrow> exn + json option" where
  "getProp JNull k = Inl TypeError"
| "getProp (JObj kvs) k = Inr (map_of kvs k)"
| "getProp v k = Inr None"

text \<open>\<open>v ?? d\<close>: the default for \<open>undefined\<close> and \<open>null\<close> only.\<close>

fun nullish :: "json option \<Rightarrow> json \<Rightarrow> json" where
  "nullish None d = d"
| "nullish (Some JNull) d = d"
| "nullish (Some v) d = v"

function decimal :: "nat \<Rightarrow> string" where
  "decimal n =
     (if n < 10 then [char_of (48 + n)] else decimal (n div 10) @ [char_of (48 + n mod 10)])"
  by pat_completeness auto
termination
  by (relation "measure id") auto

text \<open>
  The own enumerable properties that an object spread \<open>{...v}\<close> copies: the bindings of an
  object, the indexed elements of an array, the indexed characters of a string, and
  nothing for the other values.
\<close>

fun spreadEntries :: "json \<Rightarrow> (string \<times> json) list" where
  "spreadEntries (JObj kvs) = kvs"
| "spreadEntries (JArr xs) = zip (map decimal [0..<length xs]) xs"
| "spreadEntries (JStr cs) = zip (map decimal [0..<length cs]) (map (\<lambda>c. JStr [c]) cs)"
| "spreadEntries v = []"

text \<open>
  The body of the \<open>try\<close> block, on what \<open>getItem\<close> did and on \<open>JSON.parse\<close> (\<open>None\<close>
  is its \<open>SyntaxError\<close>). \<open>!raw\<close> holds for \<open>null\<close> and for the empty string.
\<close>

definition loadBody ::
  "(string \<Rightarrow> json option) \<Rightarrow> storageRead \<Rightarrow> loadedSave \<Rightarrow> exn + loadedSave" where
  "loadBody parse st dflt =
     (case st of
        GetItemThrows \<Rightarrow> Inl StorageError
      | GetItem raw \<Rightarrow>
          (case raw of
             None \<Rightarrow> Inr dflt
           | Some txt \<Rightarrow>
               if txt = [] then Inr dflt
               else
                 (case parse txt of
                    None \<Rightarrow> Inl SyntaxError
                  | Some parsed \<Rightarrow>
                      (case getProp parsed ''bestScore'' of
                         Inl e \<Rightarrow> Inl e
                       | Inr b \<Rightarrow>
                           (case getProp parsed ''walletCoins'' of
                              Inl e \<Rightarrow> Inl e
                            | Inr w \<Rightarrow>
                                (case getProp parsed ''upgrades'' of
                                   Inl e \<Rightarrow> Inl e
                                 | Inr u \<Rightarrow>
                                     Inr \<lparr>ls_bestScore = nullish b (ls_bestScore dflt),
                                          ls_walletCoins = nullish w (ls_walletCoins dflt),
                                          ls_upgrades = ls_upgrades dflt
                                            ++ map_of (spreadEntries (nullish u (JObj [])))\<rparr>))))))"

text \<open>\<open>SaveService.load\<close>: the \<open>catch\<close> turns every exception of the body into the defaults.\<close>

definition load ::
  "(string \<Rightarrow> json option) \<Rightarrow> storageRead \<Rightarrow> upgradeBranchConfig list \<Rightarrow> exn + loadedSave" where
  "load parse st ups =
     (let dflt = loadDefaults ups in
      case loadBody parse st dflt of
        Inl e \<Rightarrow> Inr dflt
      | Inr v \<Rightarrow> Inr v)"

section \<open>Example values\<close>


definition tier :: "real \<Rightarrow> real \<Rightarrow> drainTier" where
  "tier f r = \<lparr>fromSec = f, rate = r\<rparr>"

definition exampleEconomy :: economyConfig where
  "exampleEconomy =
     \<lparr>startCoins = 100,
      coinDrainTiers = [tier 0 1, tier 30 2, tier 60 4],
      pickupValue = 10, collisionPenalty = 8, bribeShotCost = 1, freeBribeChance = 1 / 10,
      firstGateDelaySec = None, gateIntervalSec = 20, gateDurationSec = 10\<rparr>"

definition exampleDefense :: upgradeBranchConfig where
  "exampleDefense =
     \<lparr>ub_id = ''defense'', ub_title = ''Defense'',
      ub_levels = [\<lparr>ul_cost = 5, ul_title = ''Shield'', ul_shortDesc = ''two charges'',
                    ul_effect = noEffect\<lparr>ue_shieldStart := Some 2, ue_shieldRegenSec := Some 6\<rparr>\<rparr>]\<rparr>"

definition exampleConfig :: gameConfig where
  "exampleConfig =
     \<lparr>economy = exampleEconomy, cfg_gates = [], cfg_obstacles = [],
      cfg_upgrades = [exampleDefense]\<rparr>"

definition exampleSave :: saveData where
  "exampleSave = \<lparr>bestScore = 0, walletCoins = 0, upgrades = [''defense'' \<mapsto> 1]\<rparr>"





definition shieldedState :: "real \<Rightarrow> game" where
  "shieldedState n =
     (initial exampleSave)\<lparr>runActive := True, paused := False, coinsBalance := 100,
        shieldMax := 2, shieldCount := n, shieldRegenSec := 6, shieldRegenTimer := 3\<rparr>"




definition readyState :: "bool \<Rightarrow> game" where
  "readyState ready =
     (shieldedState 0)\<lparr>freeBribeEverySec := 8, freeBribeTimerSec := 3, freeBribeReady := ready\<rparr>"


text \<open>A \<open>JSON.parse\<close> that returns the given value, and stored payloads.\<close>

definition parsesTo :: "json \<Rightarrow> string \<Rightarrow> json option" where
  "parsesTo v txt = Some v"

definition invalidPayload :: json where
  "invalidPayload =
     JObj [(''bestScore'', JStr ''abc''), (''walletCoins'', JNum 5),
           (''upgrades'', JObj [(''defense'', JStr ''max'')])]"

definition partialPayload :: json where
  "partialPayload =
     JObj [(''walletCoins'', JNum 5), (''bestScore'', JNull),
           (''upgrades'', JObj [(''farm'', JNum 2)])]"

definition exampleBranches :: "upgradeBranchConfig list" where
  "exampleBranches =
     [exampleDefense, \<lparr>ub_id = ''farm'', ub_title = ''Farm'', ub_levels = []\<rparr>]"


section \<open>Verified properties\<close>

subsection \<open>The multiplier of a key is a product\<close>





subsection \<open>The drain tier in force\<close>

lemma foldl_last_match:
  "foldl (\<lambda>cur tier. if t \<ge> fromSec tier then rate tier else cur) c xs
     = (if filter (\<lambda>tier. fromSec tier \<le> t) xs = [] then c
        else rate (last (filter (\<lambda>tier. fromSec tier \<le> t) xs)))"
  by (induction xs arbitrary: c) auto

text \<open>
  Claim C4. For a tier list sorted ascending by \<open>fromSec\<close> and an elapsed time at which
  some tier has started, the selected rate is the rate of the last tier whose \<open>fromSec\<close>
  is at most the elapsed time; nothing is interpolated. The three cases of the
  specification, tiers (0,1), (30,2), (60,4) at 45, 61 and 0 seconds, are evaluated after
  the theorem.
\<close>

theorem currentDrainRate_last_tier:
  assumes "sorted (map fromSec tiers)"
    and "filter (\<lambda>tier. fromSec tier \<le> t) tiers \<noteq> []"
  shows "currentDrainRate tiers t = rate (last (filter (\<lambda>tier. fromSec tier \<le> t) tiers))"
  using assms by (simp add: currentDrainRate_def sort_key_id_if_sorted foldl_last_match)

theorem currentDrainRate_last_tier_witness:
  "currentDrainRate [tier 0 1, tier 30 2, tier 60 4] 45 = 2
   \<and> currentDrainRate [tier 0 1, tier 30 2, tier 60 4] 61 = 4
   \<and> currentDrainRate [tier 0 1, tier 30 2, tier 60 4] 0 = 1"
  using currentDrainRate_last_tier [of "[tier 0 1, tier 30 2, tier 60 4]" 45]
    currentDrainRate_last_tier [of "[tier 0 1, tier 30 2, tier 60 4]" 61]
    currentDrainRate_last_tier [of "[tier 0 1, tier 30 2, tier 60 4]" 0]
  by (simp add: tier_def)

subsection \<open>The shield count stays within its capacity\<close>

lemma shields_showToast [simp]:
  "shieldCount (showToast m s) = shieldCount s" "shieldMax (showToast m s) = shieldMax s"
  by (simp_all add: showToast_def)

lemma shields_storeWithCloud [simp]:
  "shieldCount (storeWithCloud s) = shieldCount s" "shieldMax (storeWithCloud s) = shieldMax s"
  by (simp_all add: storeWithCloud_def)

lemma swc_cong:
  "shieldCount t = shieldCount s \<Longrightarrow> shieldMax t = shieldMax s \<Longrightarrow>
   shieldsWithinCapacity t = shieldsWithinCapacity s"
  by (simp add: shieldsWithinCapacity_def)

lemma swc_showToast [simp]: "shieldsWithinCapacity (showToast m s) = shieldsWithinCapacity s"
  by (rule swc_cong) simp_all

lemma swc_storeWithCloud [simp]: "shieldsWithinCapacity (storeWithCloud s) = shieldsWithinCapacity s"
  by (rule swc_cong) simp_all

lemma swc_applyGate [simp]: "shieldsWithinCapacity (applyGate cfg g s) = shieldsWithinCapacity s"
  by (rule swc_cong) (simp_all add: applyGate_def Let_def)

lemma swc_updateEffects [simp]: "shieldsWithinCapacity (updateEffects dt s) = shieldsWithinCapacity s"
  by (rule swc_cong) (simp_all add: updateEffects_def)

lemma swc_advanceClocks [simp]: "shieldsWithinCapacity (advanceClocks dt s) = shieldsWithinCapacity s"
  by (rule swc_cong) (simp_all add: advanceClocks_def Let_def)

lemma swc_tickFreeBribe [simp]: "shieldsWithinCapacity (tickFreeBribe dt s) = shieldsWithinCapacity s"
  by (rule swc_cong) (simp_all add: tickFreeBribe_def Let_def)

lemma swc_movePlayer [simp]: "shieldsWithinCapacity (movePlayer dt d s) = shieldsWithinCapacity s"
  by (rule swc_cong) (simp_all add: movePlayer_def)

lemma swc_drainCoins [simp]: "shieldsWithinCapacity (drainCoins cfg dt s) = shieldsWithinCapacity s"
  by (rule swc_cong) (simp_all add: drainCoins_def Let_def)

lemma swc_tickToast [simp]: "shieldsWithinCapacity (tickToast dt s) = shieldsWithinCapacity s"
  by (rule swc_cong) (simp_all add: tickToast_def)

lemma swc_triggerGameOver [simp]: "shieldsWithinCapacity (triggerGameOver s) = shieldsWithinCapacity s"
  by (rule swc_cong) (simp_all add: triggerGameOver_def Let_def)

lemma whole_step_up:
  fixes c m :: real
  assumes "c = of_int \<lfloor>c\<rfloor>" "m = of_int \<lfloor>m\<rfloor>" "c < m"
  shows "c + 1 \<le> m" "c + 1 = of_int \<lfloor>c + 1\<rfloor>"
proof -
  have "\<lfloor>c\<rfloor> < \<lfloor>m\<rfloor>" using assms by (metis of_int_less_iff)
  then have "\<lfloor>c\<rfloor> + 1 \<le> \<lfloor>m\<rfloor>" by simp
  then have "(of_int (\<lfloor>c\<rfloor> + 1) :: real) \<le> of_int \<lfloor>m\<rfloor>" by (simp only: of_int_le_iff)
  then show "c + 1 \<le> m" using assms by simp
  show "c + 1 = of_int \<lfloor>c + 1\<rfloor>" using assms(1) by simp
qed

lemma whole_step_down:
  fixes c :: real
  assumes "c = of_int \<lfloor>c\<rfloor>" "0 < c"
  shows "0 \<le> c - 1" "c - 1 = of_int \<lfloor>c - 1\<rfloor>"
proof -
  have "0 < \<lfloor>c\<rfloor>" using assms by linarith
  then have "(1::int) \<le> \<lfloor>c\<rfloor>" by simp
  then have "(of_int 1 :: real) \<le> of_int \<lfloor>c\<rfloor>" by (simp only: of_int_le_iff)
  then show "0 \<le> c - 1" using assms by simp
  show "c - 1 = of_int \<lfloor>c - 1\<rfloor>" using assms(1) by simp
qed

lemma swc_regenShield: "shieldsWithinCapacity s \<Longrightarrow> shieldsWithinCapacity (regenShield dt s)"
  unfolding shieldsWithinCapacity_def regenShield_def Let_def
  using whole_step_up [of "shieldCount s" "shieldMax s"]
  by auto

lemma swc_obstacleStep:
  "shieldsWithinCapacity s \<Longrightarrow> shieldsWithinCapacity (snd (obstacleStep cfg boat ob s))"
  unfolding obstacleStep_def Let_def
  using whole_step_down [of "shieldCount s"]
  by (auto simp: shieldsWithinCapacity_def)

lemma swc_coinStep: "shieldsWithinCapacity (snd (coinStep boat m roll ic s)) = shieldsWithinCapacity s"
  by (rule swc_cong) (simp_all add: coinStep_def Let_def)

lemma swc_projectileStep: "shieldsWithinCapacity (snd (projectileStep p s)) = shieldsWithinCapacity s"
  by (rule swc_cong) (simp_all add: projectileStep_def Let_def split: option.split)

lemma filterWith_preserves:
  assumes "\<And>x s. P s \<Longrightarrow> P (snd (f x s))" and "P s"
  shows "P (snd (filterWith f xs s))"
  using assms(2)
proof (induction xs arbitrary: s)
  case Nil
  then show ?case by simp
next
  case (Cons x xs)
  have "P (snd (f x s))" using assms(1) Cons.prems by blast
  then have "P (snd (filterWith f xs (snd (f x s))))" by (rule Cons.IH)
  then show ?case by (simp add: case_prod_beta)
qed

lemma swc_chooseOption:
  "shieldsWithinCapacity (stateOf (chooseOption cfg i g opt s)) = shieldsWithinCapacity s"
proof (cases opt)
  case None
  show ?thesis by (rule swc_cong) (simp_all add: chooseOption_def None)
next
  case (Some g')
  have "shieldsWithinCapacity (s\<lparr>gates := (gates s)[i := g\<lparr>gp_chosen := True\<rparr>]\<rparr>) = shieldsWithinCapacity s"
    by (rule swc_cong) simp_all
  then show ?thesis by (simp add: chooseOption_def Some)
qed

lemma swc_gateStep:
  "shieldsWithinCapacity (stateOf (gateStep cfg i g s)) = shieldsWithinCapacity s"
  by (simp add: gateStep_def Let_def swc_chooseOption split: prod.split)

lemma swc_chooseGates:
  "shieldsWithinCapacity (stateOf (chooseGates cfg i gs s)) = shieldsWithinCapacity s"
proof (induction gs arbitrary: i s)
  case Nil
  show ?case by simp
next
  case (Cons g gs)
  show ?case
  proof (cases "gateStep cfg i g s")
    case (Done s1)
    with swc_gateStep [of cfg i g s] Cons.IH [of "Suc i" s1] show ?thesis by simp
  next
    case (Threw t)
    with swc_gateStep [of cfg i g s] show ?thesis by simp
  qed
qed

lemma swc_spawnObstacle:
  "shieldsWithinCapacity (stateOf (spawnObstacle cfg dt rn s)) = shieldsWithinCapacity s"
  by (rule swc_cong) (simp_all add: spawnObstacle_def Let_def split: option.split)

lemma swc_spawnCoin [simp]: "shieldsWithinCapacity (spawnCoin cfg dt rn s) = shieldsWithinCapacity s"
  by (rule swc_cong) (simp_all add: spawnCoin_def Let_def)

lemma swc_spawnGate [simp]: "shieldsWithinCapacity (spawnGate cfg dt rn s) = shieldsWithinCapacity s"
  by (rule swc_cong) (simp_all add: spawnGate_def Let_def split: prod.split)

lemma swc_moveEntities [simp]: "shieldsWithinCapacity (moveEntities v dt s) = shieldsWithinCapacity s"
  by (rule swc_cong) (simp_all add: moveEntities_def)

lemma swc_cullEntities [simp]: "shieldsWithinCapacity (cullEntities s) = shieldsWithinCapacity s"
  by (rule swc_cong) (simp_all add: cullEntities_def)

lemma swc_spawnAndMove:
  "shieldsWithinCapacity (stateOf (spawnAndMove cfg dt rn s)) = shieldsWithinCapacity s"
  using swc_spawnObstacle [of cfg dt rn s]
  by (cases "spawnObstacle cfg dt rn s") (simp_all add: spawnAndMove_def Let_def)

lemma swc_set_list [simp]:
  "shieldsWithinCapacity (s\<lparr>coins := cs\<rparr>) = shieldsWithinCapacity s"
  "shieldsWithinCapacity (s\<lparr>obstacles := os\<rparr>) = shieldsWithinCapacity s"
  "shieldsWithinCapacity (s\<lparr>projectiles := ps\<rparr>) = shieldsWithinCapacity s"
  "shieldsWithinCapacity (s\<lparr>loopAlive := b\<rparr>) = shieldsWithinCapacity s"
  by (simp_all add: shieldsWithinCapacity_def)

lemma swc_collectCoins:
  "shieldsWithinCapacity s \<Longrightarrow> shieldsWithinCapacity (collectCoins boat m rn s)"
  using filterWith_preserves [of shieldsWithinCapacity "coinStep boat m (r_doubleSoul rn)" s
      "enumerate 0 (coins s)"]
  by (simp add: collectCoins_def swc_coinStep case_prod_beta)

lemma swc_hitObstacles:
  "shieldsWithinCapacity s \<Longrightarrow> shieldsWithinCapacity (hitObstacles cfg boat s)"
  using filterWith_preserves [of shieldsWithinCapacity "obstacleStep cfg boat" s "obstacles s"]
  by (simp add: hitObstacles_def swc_obstacleStep case_prod_beta)

lemma swc_hitProjectiles:
  "shieldsWithinCapacity s \<Longrightarrow> shieldsWithinCapacity (hitProjectiles s)"
  using filterWith_preserves [of shieldsWithinCapacity projectileStep s "projectiles s"]
  by (simp add: hitProjectiles_def swc_projectileStep case_prod_beta)

lemma swc_handleCollisions:
  assumes "shieldsWithinCapacity s"
  shows "shieldsWithinCapacity (stateOf (handleCollisions cfg rn s))"
proof -
  define s2 where "s2 = hitObstacles cfg (boatBody s)
      (collectCoins (boatBody s)
         (BASE_MAGNET_RADIUS * magnetMult s * (BASE_MAGNET_RADIUS * magnetMult s)) rn s)"
  have 2: "shieldsWithinCapacity s2"
    unfolding s2_def by (intro swc_hitObstacles swc_collectCoins assms)
  have unfold: "handleCollisions cfg rn s =
      (case chooseGates cfg 0 (gates s2) s2 of Threw t \<Rightarrow> Threw t
       | Done s3 \<Rightarrow> Done (hitProjectiles s3))"
    unfolding handleCollisions_def Let_def s2_def by (rule refl)
  show ?thesis
  proof (cases "chooseGates cfg 0 (gates s2) s2")
    case (Threw t)
    with swc_chooseGates [of cfg 0 "gates s2" s2] 2 unfold show ?thesis by simp
  next
    case (Done s3)
    with swc_chooseGates [of cfg 0 "gates s2" s2] 2 have "shieldsWithinCapacity s3" by simp
    then have "shieldsWithinCapacity (hitProjectiles s3)" by (rule swc_hitProjectiles)
    with Done unfold show ?thesis by simp
  qed
qed

lemma swc_update:
  assumes "shieldsWithinCapacity s"
  shows "shieldsWithinCapacity (stateOf (update cfg dt d rn s))"
proof -
  define s5 where "s5 = drainCoins cfg dt (movePlayer dt d (regenShield dt (tickFreeBribe dt (advanceClocks dt s))))"
  have 5: "shieldsWithinCapacity s5"
    unfolding s5_def using assms by (simp add: swc_regenShield)
  have unfold: "update cfg dt d rn s =
      (case spawnAndMove cfg dt rn s5 of Threw t \<Rightarrow> Threw t
       | Done s6 \<Rightarrow> (case handleCollisions cfg rn s6 of Threw t \<Rightarrow> Threw t
          | Done s7 \<Rightarrow> Done (if coinsBalance (tickToast dt (updateEffects dt s7)) \<le> 0
                             then triggerGameOver (tickToast dt (updateEffects dt s7))
                             else tickToast dt (updateEffects dt s7))))"
    unfolding update_def Let_def s5_def by (rule refl)
  show ?thesis
  proof (cases "spawnAndMove cfg dt rn s5")
    case (Threw t)
    with swc_spawnAndMove [of cfg dt rn s5] 5 unfold show ?thesis by simp
  next
    case (Done s6)
    with swc_spawnAndMove [of cfg dt rn s5] 5 have 6: "shieldsWithinCapacity s6" by simp
    show ?thesis
    proof (cases "handleCollisions cfg rn s6")
      case (Threw t)
      with swc_handleCollisions [OF 6, of cfg rn] Done unfold show ?thesis by simp
    next
      case inner: (Done s7)
      with swc_handleCollisions [OF 6, of cfg rn] have "shieldsWithinCapacity s7" by simp
      with Done inner unfold show ?thesis by simp
    qed
  qed
qed

lemma swc_loop:
  assumes "shieldsWithinCapacity s"
  shows "shieldsWithinCapacity (loop cfg ms d rn s)"
proof -
  have "shieldsWithinCapacity (stateOf (update cfg (min (ms / 1000) (5 / 100)) d rn s))"
    using assms by (rule swc_update)
  then show ?thesis
    using assms by (cases "update cfg (min (ms / 1000) (5 / 100)) d rn s") (simp_all add: loop_def Let_def)
qed

lemma swc_fireBribe: "shieldsWithinCapacity (fireBribe cfg u s) = shieldsWithinCapacity s"
  by (rule swc_cong) (simp_all add: fireBribe_def Let_def)

lemma swc_reset: "shieldsWithinCapacity (reset cfg s)"
  by (simp add: reset_def shieldsWithinCapacity_def)

lemma swc_applyDefense: "shieldsWithinCapacity (applyDefense e s)"
  by (simp add: applyDefense_def shieldsWithinCapacity_def Let_def max_def)

lemma swc_applyFarm [simp]: "shieldsWithinCapacity (applyFarm e s) = shieldsWithinCapacity s"
  by (rule swc_cong) (simp_all add: applyFarm_def)

lemma swc_applySkills [simp]: "shieldsWithinCapacity (applySkills e s) = shieldsWithinCapacity s"
  by (rule swc_cong) (simp_all add: applySkills_def Let_def)

lemma swc_applyMetaUpgradesForRun:
  "shieldsWithinCapacity s \<Longrightarrow> shieldsWithinCapacity (stateOf (applyMetaUpgradesForRun cfg s))"
  by (simp add: applyMetaUpgradesForRun_def Let_def swc_applyDefense split: option.split)

lemma swc_startNewRun: "shieldsWithinCapacity (stateOf (startNewRun cfg s))"
proof -
  define s2 where "s2 = (reset cfg s)\<lparr>runActive := True, paused := False, manualPaused := False,
                  pausedByUser := False, muted := False\<rparr>"
  have "shieldsWithinCapacity s2 = shieldsWithinCapacity (reset cfg s)"
    unfolding s2_def by (rule swc_cong) simp_all
  then have "shieldsWithinCapacity s2" by (simp add: swc_reset)
  then have "shieldsWithinCapacity (stateOf (applyMetaUpgradesForRun cfg s2))"
    by (rule swc_applyMetaUpgradesForRun)
  then show ?thesis
    by (cases "applyMetaUpgradesForRun cfg s2") (simp_all add: startNewRun_def Let_def s2_def)
qed

lemma swc_pauseClick: "shieldsWithinCapacity (pauseClick s) = shieldsWithinCapacity s"
  by (rule swc_cong) (simp_all add: pauseClick_def Let_def)

lemma swc_visibilityChange: "shieldsWithinCapacity (visibilityChange h s) = shieldsWithinCapacity s"
  by (rule swc_cong) (simp_all add: visibilityChange_def)

lemma swc_platformPause: "shieldsWithinCapacity (platformPause s) = shieldsWithinCapacity s"
  by (rule swc_cong) (simp_all add: platformPause_def Let_def)

lemma swc_platformResume: "shieldsWithinCapacity (platformResume s) = shieldsWithinCapacity s"
  by (rule swc_cong) (simp_all add: platformResume_def Let_def)

lemma swc_reviveClick: "shieldsWithinCapacity (reviveClick r s) = shieldsWithinCapacity s"
  by (rule swc_cong) (simp_all add: reviveClick_def)

lemma swc_rewardX2Click: "shieldsWithinCapacity (rewardX2Click r s) = shieldsWithinCapacity s"
  by (rule swc_cong) (simp_all add: rewardX2Click_def Let_def)

lemma swc_restartClick: "shieldsWithinCapacity (restartClick s) = shieldsWithinCapacity s"
  by (rule swc_cong) (simp_all add: restartClick_def)

lemma swc_buyUpgrade: "shieldsWithinCapacity (buyUpgrade cfg b s) = shieldsWithinCapacity s"
  by (rule swc_cong) (simp_all add: buyUpgrade_def Let_def split: option.split)

lemma swc_handleProgressReset:
  "shieldsWithinCapacity (handleProgressReset cfg c s) = shieldsWithinCapacity s"
  by (rule swc_cong) (simp_all add: handleProgressReset_def Let_def)

lemma swc_onPointerMove: "shieldsWithinCapacity (onPointerMove x s) = shieldsWithinCapacity s"
  by (rule swc_cong) (simp_all add: onPointerMove_def)

lemma swc_handle: "shieldsWithinCapacity s \<Longrightarrow> shieldsWithinCapacity (handle cfg ev s)"
  by (cases ev)
    (simp_all add: swc_loop swc_fireBribe swc_pauseClick swc_startNewRun swc_visibilityChange
      swc_platformPause swc_platformResume swc_reviveClick swc_rewardX2Click swc_restartClick
      swc_buyUpgrade swc_handleProgressReset swc_onPointerMove)

lemma swc_reachable: "reachable cfg s \<Longrightarrow> shieldsWithinCapacity s"
proof (induction rule: reachable.induct)
  case (reach_initial sd)
  show ?case by (simp add: initial_def shieldsWithinCapacity_def)
next
  case (reach_step s ev)
  then show ?case by (simp add: swc_handle)
qed

text \<open>
  Claim C10. In every state reachable from the constructor through any events (run start,
  frames with their shield regeneration and obstacle collisions, reset, and every other
  handler), \<open>0 \<le> shieldCount \<le> shieldMax\<close>. Regeneration adds one charge only while the
  count is strictly below the capacity, and never passes it; the obstacle callback takes
  one charge only while the count is strictly positive.
\<close>

theorem shield_count_within_capacity:
  assumes "reachable cfg s"
  shows "0 \<le> shieldCount s \<and> shieldCount s \<le> shieldMax s
       \<and> shieldCount (regenShield dt s) \<le> shieldMax s
       \<and> shieldCount (regenShield dt s) =
           (if shieldRegenSec s > 0 \<and> shieldCount s < shieldMax s \<and> shieldRegenTimer s - dt \<le> 0
            then shieldCount s + 1 else shieldCount s)
       \<and> 0 \<le> shieldCount (snd (obstacleStep cfg boat obstacle s))
       \<and> shieldCount (snd (obstacleStep cfg boat obstacle s)) =
           (if intersects boat obstacle \<and> reviveInvulnMs s \<le> 0 \<and> shieldCount s > 0
            then shieldCount s - 1 else shieldCount s)"
proof -
  have inv: "shieldsWithinCapacity s" using assms by (rule swc_reachable)
  have 1: "shieldsWithinCapacity (regenShield dt s)" using inv by (rule swc_regenShield)
  have 2: "shieldsWithinCapacity (snd (obstacleStep cfg boat obstacle s))"
    using inv by (rule swc_obstacleStep)
  have 3: "shieldMax (regenShield dt s) = shieldMax s"
    by (simp add: regenShield_def Let_def)
  have 4: "shieldCount (regenShield dt s) =
           (if shieldRegenSec s > 0 \<and> shieldCount s < shieldMax s \<and> shieldRegenTimer s - dt \<le> 0
            then shieldCount s + 1 else shieldCount s)"
    by (simp add: regenShield_def Let_def)
  have 5: "shieldCount (snd (obstacleStep cfg boat obstacle s)) =
           (if intersects boat obstacle \<and> reviveInvulnMs s \<le> 0 \<and> shieldCount s > 0
            then shieldCount s - 1 else shieldCount s)"
    by (simp add: obstacleStep_def Let_def)
  have a: "0 \<le> shieldCount s" "shieldCount s \<le> shieldMax s"
    using inv by (simp_all add: shieldsWithinCapacity_def)
  have b: "shieldCount (regenShield dt s) \<le> shieldMax s"
    using 1 3 by (simp add: shieldsWithinCapacity_def)
  have c: "0 \<le> shieldCount (snd (obstacleStep cfg boat obstacle s))"
    using 2 by (simp add: shieldsWithinCapacity_def)
  show ?thesis
    by (intro conjI a b c 4 5)
qed

lemma startNewRun_example:
  "shieldCount (handle exampleConfig StartRunClicked (initial exampleSave)) = 2"
  "shieldMax (handle exampleConfig StartRunClicked (initial exampleSave)) = 2"
  by (simp_all add: startNewRun_def reset_def applyMetaUpgradesForRun_def currentLevelEffect_def
      exampleConfig_def exampleDefense_def exampleSave_def initial_def orElse_def at_index_def
      applyDefense_def applyFarm_def applySkills_def noEffect_def showToast_def Let_def)

theorem shield_count_within_capacity_witness:
  "shieldCount (handle exampleConfig StartRunClicked (initial exampleSave)) = 2
   \<and> shieldMax (handle exampleConfig StartRunClicked (initial exampleSave)) = 2
   \<and> 0 \<le> shieldCount (handle exampleConfig StartRunClicked (initial exampleSave))
   \<and> shieldCount (handle exampleConfig StartRunClicked (initial exampleSave))
       \<le> shieldMax (handle exampleConfig StartRunClicked (initial exampleSave))"
  using shield_count_within_capacity
    [OF reach_step [OF reach_initial, of exampleConfig StartRunClicked exampleSave]]
    startNewRun_example
  by simp

subsection \<open>Applying a gate twice\<close>




subsection \<open>Obstacle impact\<close>








subsection \<open>Choosing a gate\<close>








subsection \<open>The bribe shot and its periodic timer\<close>

text \<open>
  Claim C7. An attempt is blocked while the game is paused, over or not running, or the
  cooldown is active, and then changes nothing. Of an attempt that is not blocked: when
  the random roll succeeds and the periodic timer is not ready, the shot is fired free and
  the timer's ready flag and remaining seconds are unchanged; when the periodic timer is
  ready, the shot is fired free, the flag is cleared and the timer restarts from its
  period. Whenever the timer is not ready, no attempt changes the timer's state.
\<close>

theorem fireBribe_timer:
  assumes "blocked = (paused s \<or> gameOver s \<or> \<not> runActive s \<or> bribeCooldownLeftSec s > 0)"
  shows "(\<not> blocked \<and> u < freeBribeChance (economy cfg) \<and> \<not> freeBribeReady s \<longrightarrow>
            freeBribeReady (fireBribe cfg u s) = freeBribeReady s
          \<and> freeBribeTimerSec (fireBribe cfg u s) = freeBribeTimerSec s
          \<and> coinsBalance (fireBribe cfg u s) = coinsBalance s
          \<and> length (projectiles (fireBribe cfg u s)) = Suc (length (projectiles s)))
       \<and> (\<not> blocked \<and> freeBribeReady s \<longrightarrow>
            \<not> freeBribeReady (fireBribe cfg u s)
          \<and> freeBribeTimerSec (fireBribe cfg u s) = freeBribeEverySec s
          \<and> coinsBalance (fireBribe cfg u s) = coinsBalance s
          \<and> length (projectiles (fireBribe cfg u s)) = Suc (length (projectiles s)))
       \<and> (\<not> freeBribeReady s \<longrightarrow>
            freeBribeReady (fireBribe cfg u s) = freeBribeReady s
          \<and> freeBribeTimerSec (fireBribe cfg u s) = freeBribeTimerSec s)
       \<and> (blocked \<longrightarrow> fireBribe cfg u s = s)"
  using assms by (auto simp add: fireBribe_def Let_def showToast_def)

lemma readyState_fields:
  "\<not> paused (readyState b)" "\<not> gameOver (readyState b)" "runActive (readyState b)"
  "bribeCooldownLeftSec (readyState b) = 0" "freeBribeReady (readyState b) = b"
  "freeBribeTimerSec (readyState b) = 3" "freeBribeEverySec (readyState b) = 8"
  "coinsBalance (readyState b) = 100" "freeBribeChance (economy exampleConfig) = 1 / 10"
  by (simp_all add: readyState_def shieldedState_def initial_def exampleConfig_def exampleEconomy_def)

theorem fireBribe_timer_witness:
  "\<not> freeBribeReady (fireBribe exampleConfig 0 (readyState False))
   \<and> freeBribeTimerSec (fireBribe exampleConfig 0 (readyState False)) = 3
   \<and> coinsBalance (fireBribe exampleConfig 0 (readyState False)) = 100
   \<and> \<not> freeBribeReady (fireBribe exampleConfig (1 / 2) (readyState True))
   \<and> freeBribeTimerSec (fireBribe exampleConfig (1 / 2) (readyState True)) = 8
   \<and> coinsBalance (fireBribe exampleConfig (1 / 2) (readyState True)) = 100"
  using fireBribe_timer [OF refl, where s = "readyState False" and u = 0 and cfg = exampleConfig]
    fireBribe_timer [OF refl, where s = "readyState True" and u = "1 / 2" and cfg = exampleConfig]
  by (simp add: readyState_fields)

subsection \<open>Platform suspend and resume\<close>







subsection \<open>Doubling the earnings after game over\<close>




lemma triggerGameOver_earnings:
  "gameOver (triggerGameOver s)" "gameOverScoreMultiplier (triggerGameOver s) = 1"
  "0 \<le> sessionEarningsBase (triggerGameOver s)"
  by (simp_all add: triggerGameOver_def Let_def showToast_def storeWithCloud_def)

subsection \<open>Loading the save payload\<close>

text \<open>
  Claim C8, as stated, fails: a \<open>bestScore\<close> that is a string and an upgrade level that is
  a string are invalid, and \<open>load\<close> returns them as they are, not the defaults.
\<close>

theorem load_invalid_field_counterexample:
  "load (parsesTo invalidPayload) (GetItem (Some ''payload'')) exampleBranches
     = Inr (projr (load (parsesTo invalidPayload) (GetItem (Some ''payload'')) exampleBranches))
   \<and> ls_bestScore (projr (load (parsesTo invalidPayload) (GetItem (Some ''payload'')) exampleBranches))
       = JStr ''abc''
   \<and> ls_bestScore (loadDefaults exampleBranches) = JNum 0
   \<and> ls_upgrades (projr (load (parsesTo invalidPayload) (GetItem (Some ''payload'')) exampleBranches))
        ''defense'' = Some (JStr ''max'')
   \<and> ls_upgrades (loadDefaults exampleBranches) ''defense'' = Some (JNum 0)"
  by (simp add: load_def loadBody_def loadDefaults_def parsesTo_def invalidPayload_def
      exampleBranches_def exampleDefense_def)

lemma load_returns: "\<exists>v. load parse st ups = Inr v"
  by (simp add: load_def Let_def split: sum.split)

lemma nullish_cases:
  "nullish None d = d" "nullish (Some JNull) d = d" "x \<noteq> JNull \<Longrightarrow> nullish (Some x) d = x"
  by (cases x; simp)+

lemma loadDefaults_entry:
  "k \<in> ub_id ` set ups \<Longrightarrow> ls_upgrades (loadDefaults ups) k = Some (JNum 0)"
proof -
  assume "k \<in> ub_id ` set ups"
  then have "k \<in> fst ` set (rev (map (\<lambda>upgrade. (ub_id upgrade, JNum 0)) ups))"
    by (auto simp: image_iff)
  then obtain v where v: "map_of (rev (map (\<lambda>upgrade. (ub_id upgrade, JNum 0)) ups)) k = Some v"
    by (metis map_of_eq_None_iff not_Some_eq)
  then have "(k, v) \<in> set (rev (map (\<lambda>upgrade. (ub_id upgrade, JNum 0)) ups))"
    by (rule map_of_SomeD)
  then have "v = JNum 0" by auto
  with v show ?thesis by (simp add: loadDefaults_def)
qed

text \<open>
  Claim C8, amended. \<open>load\<close> never throws: it always returns a value. For a stored
  payload that parses to an object, each field is recovered on its own: a \<open>bestScore\<close> or
  \<open>walletCoins\<close> that is absent or \<open>null\<close> becomes its default 0 and any other value is
  returned as it is; an upgrade level that the payload's \<open>upgrades\<close> does not bind is the
  default (0 for every configured branch), and a level that it binds is returned as it is.
  No field is validated.
\<close>

theorem load_recovers_absent_fields:
  assumes "stored \<noteq> []" and "parse stored = Some (JObj kvs)"
    and "v = projr (load parse (GetItem (Some stored)) ups)"
    and "entries = spreadEntries (nullish (map_of kvs ''upgrades'') (JObj []))"
  shows "(\<exists>w. load parse st ups = Inr w)
       \<and> load parse (GetItem (Some stored)) ups = Inr v
       \<and> (map_of kvs ''bestScore'' = None \<or> map_of kvs ''bestScore'' = Some JNull
            \<longrightarrow> ls_bestScore v = JNum 0)
       \<and> (map_of kvs ''bestScore'' = Some x \<and> x \<noteq> JNull \<longrightarrow> ls_bestScore v = x)
       \<and> (map_of kvs ''walletCoins'' = None \<or> map_of kvs ''walletCoins'' = Some JNull
            \<longrightarrow> ls_walletCoins v = JNum 0)
       \<and> (map_of kvs ''walletCoins'' = Some y \<and> y \<noteq> JNull \<longrightarrow> ls_walletCoins v = y)
       \<and> (map_of entries k = None \<longrightarrow> ls_upgrades v k = ls_upgrades (loadDefaults ups) k)
       \<and> (map_of entries k = None \<and> k \<in> ub_id ` set ups \<longrightarrow> ls_upgrades v k = Some (JNum 0))
       \<and> (map_of entries k = Some z \<longrightarrow> ls_upgrades v k = Some z)"
proof -
  have body: "load parse (GetItem (Some stored)) ups =
      Inr \<lparr>ls_bestScore = nullish (map_of kvs ''bestScore'') (JNum 0),
           ls_walletCoins = nullish (map_of kvs ''walletCoins'') (JNum 0),
           ls_upgrades = ls_upgrades (loadDefaults ups) ++ map_of entries\<rparr>"
    using assms(1,2,4) by (simp add: load_def loadBody_def Let_def loadDefaults_def)
  then have v: "v = \<lparr>ls_bestScore = nullish (map_of kvs ''bestScore'') (JNum 0),
           ls_walletCoins = nullish (map_of kvs ''walletCoins'') (JNum 0),
           ls_upgrades = ls_upgrades (loadDefaults ups) ++ map_of entries\<rparr>"
    using assms(3) by simp
  have 1: "load parse (GetItem (Some stored)) ups = Inr v" using body v by simp
  have 2: "map_of kvs ''bestScore'' = None \<or> map_of kvs ''bestScore'' = Some JNull
            \<longrightarrow> ls_bestScore v = JNum 0"
    by (auto simp: v)
  have 3: "map_of kvs ''bestScore'' = Some x \<and> x \<noteq> JNull \<longrightarrow> ls_bestScore v = x"
    by (auto simp: v nullish_cases)
  have 4: "map_of kvs ''walletCoins'' = None \<or> map_of kvs ''walletCoins'' = Some JNull
            \<longrightarrow> ls_walletCoins v = JNum 0"
    by (auto simp: v)
  have 5: "map_of kvs ''walletCoins'' = Some y \<and> y \<noteq> JNull \<longrightarrow> ls_walletCoins v = y"
    by (auto simp: v nullish_cases)
  have 6: "map_of entries k = None \<longrightarrow> ls_upgrades v k = ls_upgrades (loadDefaults ups) k"
    by (simp add: v map_add_def)
  have 7: "map_of entries k = None \<and> k \<in> ub_id ` set ups \<longrightarrow> ls_upgrades v k = Some (JNum 0)"
    using 6 loadDefaults_entry [of k ups] by simp
  have 8: "map_of entries k = Some z \<longrightarrow> ls_upgrades v k = Some z"
    by (simp add: v map_add_def)
  show ?thesis by (intro conjI load_returns 1 2 3 4 5 6 7 8)
qed

theorem load_recovers_absent_fields_witness:
  "ls_bestScore (projr (load (parsesTo partialPayload) (GetItem (Some ''payload'')) exampleBranches))
     = JNum 0
   \<and> ls_walletCoins (projr (load (parsesTo partialPayload) (GetItem (Some ''payload'')) exampleBranches))
     = JNum 5
   \<and> ls_upgrades (projr (load (parsesTo partialPayload) (GetItem (Some ''payload'')) exampleBranches))
       ''defense'' = Some (JNum 0)
   \<and> ls_upgrades (projr (load (parsesTo partialPayload) (GetItem (Some ''payload'')) exampleBranches))
       ''farm'' = Some (JNum 2)"
proof -
  have nonempty: "''payload'' \<noteq> []" by simp
  have parsed: "parsesTo partialPayload ''payload''
      = Some (JObj [(''walletCoins'', JNum 5), (''bestScore'', JNull),
                    (''upgrades'', JObj [(''farm'', JNum 2)])])"
    by (simp add: parsesTo_def partialPayload_def)
  note rec = load_recovers_absent_fields [where parse = "parsesTo partialPayload"
      and stored = "''payload''" and ups = exampleBranches and st = "GetItem None"
      and x = "JNum 1" and y = "JNum 5" and z = "JNum 2", OF nonempty parsed refl refl]
  have branch: "''defense'' \<in> ub_id ` set exampleBranches"
    by (simp add: exampleBranches_def exampleDefense_def)
  have unbound: "map_of (spreadEntries (nullish (map_of [(''walletCoins'', JNum 5),
      (''bestScore'', JNull), (''upgrades'', JObj [(''farm'', JNum 2)])] ''upgrades'') (JObj [])))
      ''defense'' = None"
    by simp
  have bound: "map_of (spreadEntries (nullish (map_of [(''walletCoins'', JNum 5),
      (''bestScore'', JNull), (''upgrades'', JObj [(''farm'', JNum 2)])] ''upgrades'') (JObj [])))
      ''farm'' = Some (JNum 2)"
    by simp
  have score: "map_of [(''walletCoins'', JNum 5), (''bestScore'', JNull),
      (''upgrades'', JObj [(''farm'', JNum 2)])] ''bestScore'' = Some JNull"
    by simp
  have wallet: "map_of [(''walletCoins'', JNum 5), (''bestScore'', JNull),
      (''upgrades'', JObj [(''farm'', JNum 2)])] ''walletCoins'' = Some (JNum 5) \<and> JNum 5 \<noteq> JNull"
    by simp
  have a: "ls_upgrades (projr (load (parsesTo partialPayload) (GetItem (Some ''payload'')) exampleBranches))
       ''defense'' = Some (JNum 0)"
    using rec [where k = "''defense''"] branch unbound by blast
  have b: "ls_walletCoins (projr (load (parsesTo partialPayload) (GetItem (Some ''payload'')) exampleBranches))
     = JNum 5"
    using rec [where k = "''farm''"] wallet by blast
  have c: "ls_bestScore (projr (load (parsesTo partialPayload) (GetItem (Some ''payload'')) exampleBranches))
     = JNum 0"
    using rec [where k = "''farm''"] score by blast
  have d: "ls_upgrades (projr (load (parsesTo partialPayload) (GetItem (Some ''payload'')) exampleBranches))
       ''farm'' = Some (JNum 2)"
    using rec [where k = "''farm''"] bound by blast
  show ?thesis by (intro conjI a b c d)
qed

end
